theory Spec2Isabelle
  imports Main
begin

section \<open>Data model\<close>

text \<open>
  The client keeps its state in two zustand stores: \<^verbatim>\<open>useChatStore\<close> (active session,
  messages, cached sessions list) and \<^verbatim>\<open>useFileStore\<close> (documents and the selection).
  JavaScript strings are modelled as \<^typ>\<open>string\<close>, arrays as lists, \<^verbatim>\<open>null\<close> and
  \<^verbatim>\<open>undefined\<close> as \<^term>\<open>None\<close>. A rejected promise carries an \<^verbatim>\<open>Error(message)\<close>, built by
  the response interceptor of the API module.
\<close>

datatype error = Error string

text \<open>A chat message: \<^verbatim>\<open>{ role, content, sources }\<close>; \<^verbatim>\<open>sources\<close> may be absent.\<close>

record message =
  role :: string
  content :: string
  sources :: "string list option"

text \<open>A session summary as listed by the backend and shown by \<^verbatim>\<open>SessionList\<close>.\<close>

record session =
  session_id :: string
  message_count :: nat
  created_at :: string
  last_message :: "message option"

text \<open>A document as listed by the backend and shown by \<^verbatim>\<open>FileList\<close> (\<^verbatim>\<open>file.id\<close> is \<open>file_id\<close>).\<close>

record file_info =
  file_id :: string
  filename :: string
  upload_date :: string
  file_size :: nat
  chunk_count :: nat

subsection \<open>Backend contract\<close>

text \<open>
  The body of \<^verbatim>\<open>POST /chat\<close>: \<^verbatim>\<open>{ question, document_ids, session_id }\<close>, and its response
  \<^verbatim>\<open>{ answer, sources, session_id }\<close>. The session id of the request is the store's
  \<^verbatim>\<open>sessionId\<close>, which is \<^verbatim>\<open>null\<close> before any session exists.
\<close>

record chat_request =
  question :: string
  document_ids :: "string list"
  request_session_id :: "string option"

record chat_response =
  answer :: string
  response_sources :: "string list"
  response_session_id :: string

text \<open>The response of \<^verbatim>\<open>POST /create-session\<close>: \<^verbatim>\<open>{ session_id }\<close>.\<close>

record create_session_response =
  created_session_id :: string

text \<open>The response of the session-history request: \<^verbatim>\<open>{ messages }\<close>.\<close>

record session_history =
  history_messages :: "message list"

text \<open>The requests the two stores issue through \<^verbatim>\<open>chatAPI\<close> and \<^verbatim>\<open>fileAPI\<close>.\<close>

datatype request =
  Req_createSession
| Req_getAllSessions
| Req_getSessionHistory string
| Req_deleteSession string
| Req_sendMessage chat_request
| Req_getFiles

section \<open>The file store\<close>

text \<open>
  The state of \<^verbatim>\<open>useFileStore\<close>; its \<^verbatim>\<open>isLoading\<close> flag is \<open>filesLoading\<close> here, since the
  chat store has a flag of the same name.
\<close>

record file_state =
  files :: "file_info list"
  selectedFiles :: "string list"
  filesLoading :: bool
  isUploading :: bool

definition initial_file_state :: file_state where
  "initial_file_state =
     \<lparr>files = [], selectedFiles = [], filesLoading = False, isUploading = False\<rparr>"

text \<open>
  An \<^verbatim>\<open>async\<close> operation with one \<^verbatim>\<open>await\<close> is modelled by two functions: \<open>op_call\<close> is
  the synchronous part up to the \<^verbatim>\<open>await\<close> and returns the new state with the request
  issued; \<open>op_resume\<close> is the rest, run when the request settles, on the state the store
  has at that moment, with \<^term>\<open>Inr\<close> the response or \<^term>\<open>Inl\<close> the error.
\<close>

definition loadFiles_call :: "file_state \<Rightarrow> file_state \<times> request" where
  "loadFiles_call s = (s\<lparr>filesLoading := True\<rparr>, Req_getFiles)"

definition loadFiles_resume :: "error + file_info list \<Rightarrow> file_state \<Rightarrow> file_state" where
  "loadFiles_resume r s =
     (case r of
        Inr fs \<Rightarrow> s\<lparr>files := fs, filesLoading := False\<rparr>
      | Inl e \<Rightarrow> s\<lparr>filesLoading := False\<rparr>)"

text \<open>\<^verbatim>\<open>loadFiles\<close> run without another operation in between.\<close>

definition loadFiles :: "(request \<Rightarrow> error + file_info list) \<Rightarrow> file_state \<Rightarrow> file_state" where
  "loadFiles api s = (case loadFiles_call s of (s1, q) \<Rightarrow> loadFiles_resume (api q) s1)"

definition toggleFileSelection :: "string \<Rightarrow> file_state \<Rightarrow> file_state" where
  "toggleFileSelection fileId s =
     (let isSelected = fileId \<in> set (selectedFiles s);
          selected = (if isSelected
                      then filter (\<lambda>i. i \<noteq> fileId) (selectedFiles s)
                      else selectedFiles s @ [fileId])
      in s\<lparr>selectedFiles := selected\<rparr>)"

definition selectAllFiles :: "file_state \<Rightarrow> file_state" where
  "selectAllFiles s = s\<lparr>selectedFiles := map file_id (files s)\<rparr>"

definition clearSelection :: "file_state \<Rightarrow> file_state" where
  "clearSelection s = s\<lparr>selectedFiles := []\<rparr>"

text \<open>A sequence of toggles, applied from left to right.\<close>

definition toggle_all :: "string list \<Rightarrow> file_state \<Rightarrow> file_state" where
  "toggle_all ids s = foldl (\<lambda>st i. toggleFileSelection i st) s ids"

text \<open>
  What the specification compares with: flipping the membership of one id in a set, and
  doing so for each id of a sequence.
\<close>

definition flip_member :: "string \<Rightarrow> string set \<Rightarrow> string set" where
  "flip_member i S = (if i \<in> S then S - {i} else insert i S)"

definition flip_all :: "string list \<Rightarrow> string set \<Rightarrow> string set" where
  "flip_all ids S = foldl (\<lambda>T i. flip_member i T) S ids"

section \<open>The chat store\<close>

text \<open>The state of \<^verbatim>\<open>useChatStore\<close> and its initial value.\<close>

record chat_state =
  sessionId :: "string option"
  messages :: "message list"
  isLoading :: bool
  sessions :: "session list"
  sessionsLoading :: bool

definition initial_chat_state :: chat_state where
  "initial_chat_state =
     \<lparr>sessionId = None, messages = [], isLoading = False, sessions = [],
      sessionsLoading = False\<rparr>"

subsection \<open>fetchSessions\<close>

definition fetchSessions_call :: "chat_state \<Rightarrow> chat_state \<times> request" where
  "fetchSessions_call s = (s\<lparr>sessionsLoading := True\<rparr>, Req_getAllSessions)"

definition fetchSessions_resume :: "error + session list \<Rightarrow> chat_state \<Rightarrow> chat_state" where
  "fetchSessions_resume r s =
     (case r of
        Inr ss \<Rightarrow> s\<lparr>sessions := ss, sessionsLoading := False\<rparr>
      | Inl e \<Rightarrow> s\<lparr>sessionsLoading := False\<rparr>)"

definition fetchSessions :: "(request \<Rightarrow> error + session list) \<Rightarrow> chat_state \<Rightarrow> chat_state" where
  "fetchSessions api s =
     (case fetchSessions_call s of (s1, q) \<Rightarrow> fetchSessions_resume (api q) s1)"

subsection \<open>initializeSession\<close>

text \<open>
  Nothing is set before the \<^verbatim>\<open>await\<close>. On success the session id is set and
  \<^verbatim>\<open>get().fetchSessions()\<close> is started and not awaited: its synchronous part runs at once,
  its request stays in flight. The \<^verbatim>\<open>catch\<close> only logs, so the operation never throws.
\<close>

definition initializeSession_call :: "chat_state \<Rightarrow> chat_state \<times> request" where
  "initializeSession_call s = (s, Req_createSession)"

definition initializeSession_resume ::
  "error + create_session_response \<Rightarrow> chat_state \<Rightarrow> chat_state \<times> request list" where
  "initializeSession_resume r s =
     (case r of
        Inr response \<Rightarrow>
          (case fetchSessions_call (s\<lparr>sessionId := Some (created_session_id response)\<rparr>) of
             (s2, q) \<Rightarrow> (s2, [q]))
      | Inl e \<Rightarrow> (s, []))"

definition initializeSession ::
  "(request \<Rightarrow> error + create_session_response) \<Rightarrow> chat_state \<Rightarrow> chat_state \<times> request list" where
  "initializeSession api s =
     (case initializeSession_call s of
        (s1, q) \<Rightarrow> (case initializeSession_resume (api q) s1 of (s2, qs) \<Rightarrow> (s2, q # qs)))"

subsection \<open>switchSession\<close>

text \<open>
  The backend's messages are converted one by one; \<^verbatim>\<open>msg.sources || undefined\<close> keeps an
  array (arrays are truthy, the empty one too) and turns a missing value into
  \<^verbatim>\<open>undefined\<close>. The response is typed as the backend contract gives it, a record with
  its list of messages, so the conversion itself cannot throw.
\<close>

definition convert_message :: "message \<Rightarrow> message" where
  "convert_message msg =
     \<lparr>role = role msg, content = content msg,
      sources = (case sources msg of Some xs \<Rightarrow> Some xs | None \<Rightarrow> None)\<rparr>"

definition switchSession_call :: "string \<Rightarrow> chat_state \<Rightarrow> chat_state \<times> request" where
  "switchSession_call sid s = (s\<lparr>isLoading := True\<rparr>, Req_getSessionHistory sid)"

definition switchSession_resume ::
  "string \<Rightarrow> error + session_history \<Rightarrow> chat_state \<Rightarrow> chat_state \<times> request list" where
  "switchSession_resume sid r s =
     (case r of
        Inr sessionHistory \<Rightarrow>
          (let msgs = map convert_message (history_messages sessionHistory)
           in case fetchSessions_call
                     (s\<lparr>sessionId := Some sid, messages := msgs, isLoading := False\<rparr>) of
                (s2, q) \<Rightarrow> (s2, [q]))
      | Inl e \<Rightarrow> (s\<lparr>sessionId := Some sid, messages := [], isLoading := False\<rparr>, []))"

definition switchSession ::
  "(request \<Rightarrow> error + session_history) \<Rightarrow> string \<Rightarrow> chat_state
     \<Rightarrow> chat_state \<times> request list" where
  "switchSession api sid s =
     (case switchSession_call sid s of
        (s1, q) \<Rightarrow> (case switchSession_resume sid (api q) s1 of (s2, qs) \<Rightarrow> (s2, q # qs)))"

subsection \<open>deleteSession\<close>

text \<open>
  Returns \<^verbatim>\<open>true\<close> on success and rethrows the error on failure. The comparison with the
  active session reads the store again (\<^verbatim>\<open>get().sessionId\<close>) after the list was updated.
\<close>

definition deleteSession_call :: "string \<Rightarrow> chat_state \<Rightarrow> chat_state \<times> request" where
  "deleteSession_call sid s = (s, Req_deleteSession sid)"

definition deleteSession_resume ::
  "string \<Rightarrow> error + unit \<Rightarrow> chat_state \<Rightarrow> chat_state \<times> (error + bool)" where
  "deleteSession_resume sid r s =
     (case r of
        Inr ack \<Rightarrow>
          (let s1 = s\<lparr>sessions := filter (\<lambda>x. session_id x \<noteq> sid) (sessions s)\<rparr>;
               s2 = (if sessionId s1 = Some sid
                     then s1\<lparr>sessionId := None, messages := []\<rparr> else s1)
           in (s2, Inr True))
      | Inl e \<Rightarrow> (s, Inl e))"

definition deleteSession ::
  "(request \<Rightarrow> error + unit) \<Rightarrow> string \<Rightarrow> chat_state \<Rightarrow> chat_state \<times> (error + bool)" where
  "deleteSession api sid s =
     (case deleteSession_call sid s of (s1, q) \<Rightarrow> deleteSession_resume sid (api q) s1)"

subsection \<open>sendMessage\<close>

definition user_message :: "string \<Rightarrow> message" where
  "user_message text = \<lparr>role = ''user'', content = text, sources = None\<rparr>"

definition assistant_message :: "chat_response \<Rightarrow> message" where
  "assistant_message response =
     \<lparr>role = ''assistant'', content = answer response,
      sources = Some (response_sources response)\<rparr>"

text \<open>
  The synchronous part reads the session id, appends the user message and sets the
  loading flag, then issues the request. \<^verbatim>\<open>messages.slice(0, -1)\<close> drops the last element
  and gives the empty array on the empty array, as \<^const>\<open>butlast\<close> does.
\<close>

definition sendMessage_call ::
  "string \<Rightarrow> string list \<Rightarrow> chat_state \<Rightarrow> chat_state \<times> request" where
  "sendMessage_call text documentIds s =
     (s\<lparr>messages := messages s @ [user_message text], isLoading := True\<rparr>,
      Req_sendMessage
        \<lparr>question = text, document_ids = documentIds, request_session_id = sessionId s\<rparr>)"

definition sendMessage_resume ::
  "error + chat_response \<Rightarrow> chat_state \<Rightarrow> chat_state \<times> request list \<times> (error + unit)" where
  "sendMessage_resume r s =
     (case r of
        Inr response \<Rightarrow>
          (case fetchSessions_call
                  (s\<lparr>messages := messages s @ [assistant_message response],
                     isLoading := False,
                     sessionId := Some (response_session_id response)\<rparr>) of
             (s2, q) \<Rightarrow> (s2, [q], Inr ()))
      | Inl e \<Rightarrow> (s\<lparr>messages := butlast (messages s), isLoading := False\<rparr>, [], Inl e))"

text \<open>
  \<^verbatim>\<open>sendMessage\<close> run without another operation between the call and the completion:
  the final state, every request issued, and the outcome the caller sees (\<^term>\<open>Inl\<close> the
  rethrown error).
\<close>

definition sendMessage ::
  "(request \<Rightarrow> error + chat_response) \<Rightarrow> string \<Rightarrow> string list \<Rightarrow> chat_state
     \<Rightarrow> chat_state \<times> request list \<times> (error + unit)" where
  "sendMessage api text documentIds s =
     (case sendMessage_call text documentIds s of
        (s1, q) \<Rightarrow>
          (case sendMessage_resume (api q) s1 of (s2, qs, res) \<Rightarrow> (s2, q # qs, res)))"

subsection \<open>clearChat\<close>

definition clearChat :: "chat_state \<Rightarrow> chat_state" where
  "clearChat s = s\<lparr>messages := []\<rparr>"

subsection \<open>The store's state updates as events\<close>

text \<open>
  Every place where the chat store's state can change: the synchronous part of an
  operation, the completion of its request, and \<^verbatim>\<open>clearChat\<close>.
\<close>

datatype chat_event =
  Ev_initializeSession_call
| Ev_initializeSession_resume "error + create_session_response"
| Ev_fetchSessions_call
| Ev_fetchSessions_resume "error + session list"
| Ev_switchSession_call string
| Ev_switchSession_resume string "error + session_history"
| Ev_deleteSession_call string
| Ev_deleteSession_resume string "error + unit"
| Ev_sendMessage_call string "string list"
| Ev_sendMessage_resume "error + chat_response"
| Ev_clearChat

fun chat_step :: "chat_event \<Rightarrow> chat_state \<Rightarrow> chat_state" where
  "chat_step Ev_initializeSession_call s = fst (initializeSession_call s)"
| "chat_step (Ev_initializeSession_resume r) s = fst (initializeSession_resume r s)"
| "chat_step Ev_fetchSessions_call s = fst (fetchSessions_call s)"
| "chat_step (Ev_fetchSessions_resume r) s = fetchSessions_resume r s"
| "chat_step (Ev_switchSession_call sid) s = fst (switchSession_call sid s)"
| "chat_step (Ev_switchSession_resume sid r) s = fst (switchSession_resume sid r s)"
| "chat_step (Ev_deleteSession_call sid) s = fst (deleteSession_call sid s)"
| "chat_step (Ev_deleteSession_resume sid r) s = fst (deleteSession_resume sid r s)"
| "chat_step (Ev_sendMessage_call text documentIds) s = fst (sendMessage_call text documentIds s)"
| "chat_step (Ev_sendMessage_resume r) s = fst (sendMessage_resume r s)"
| "chat_step Ev_clearChat s = clearChat s"

text \<open>A sequence of events, applied from left to right.\<close>

definition chat_run :: "chat_event list \<Rightarrow> chat_state \<Rightarrow> chat_state" where
  "chat_run evs s = foldl (\<lambda>st ev. chat_step ev st) s evs"

text \<open>The invariant of the active conversation: no session, no messages.\<close>

definition session_invariant :: "chat_state \<Rightarrow> bool" where
  "session_invariant s = (sessionId s = None \<longrightarrow> messages s = [])"

text \<open>The optimistic append of \<^verbatim>\<open>sendMessage\<close> while no session is active.\<close>

fun send_without_session :: "chat_event \<Rightarrow> chat_state \<Rightarrow> bool" where
  "send_without_session (Ev_sendMessage_call text documentIds) s = (sessionId s = None)"
| "send_without_session ev s = False"

section \<open>The callers in the user interface\<close>

text \<open>
  \<^verbatim>\<open>String.prototype.trim\<close> removes white space and line terminators at both ends. A
  \<^typ>\<open>char\<close> is read as a code point below 256, where these are tab, line feed, vertical
  tab, form feed, carriage return, space and no-break space.
\<close>

definition is_whitespace :: "char \<Rightarrow> bool" where
  "is_whitespace c = (of_char c \<in> set [9, 10, 11, 12, 13, 32, 160 :: nat])"

definition trim :: "string \<Rightarrow> string" where
  "trim str = rev (dropWhile is_whitespace (rev (dropWhile is_whitespace str)))"

text \<open>
  \<^verbatim>\<open>ChatInput.handleSubmit\<close> up to the \<^verbatim>\<open>await\<close> inside \<^verbatim>\<open>sendMessage\<close>: the chat state, the
  requests issued and the toasts shown. \<open>input\<close> is the text of the input field,
  \<open>disabled\<close> the component's property, \<open>selected\<close> the file store's selection, and the
  loading flag is the one the component read from the chat store.
\<close>

definition handleSubmit ::
  "string \<Rightarrow> bool \<Rightarrow> string list \<Rightarrow> chat_state \<Rightarrow> chat_state \<times> request list \<times> string list" where
  "handleSubmit input disabled selected s =
     (if trim input = [] \<or> isLoading s \<or> disabled then (s, [], [])
      else if length selected = 0
        then (s, [], [''Please select at least one document first''])
      else (case sendMessage_call (trim input) selected s of (s1, q) \<Rightarrow> (s1, [q], [])))"

text \<open>\<^verbatim>\<open>SessionList.handleSwitchSession\<close> up to the \<^verbatim>\<open>await\<close> inside \<^verbatim>\<open>switchSession\<close>.\<close>

definition handleSwitchSession :: "string \<Rightarrow> chat_state \<Rightarrow> chat_state \<times> request list" where
  "handleSwitchSession sid s =
     (if Some sid = sessionId s then (s, [])
      else (case switchSession_call sid s of (s1, q) \<Rightarrow> (s1, [q])))"

text \<open>\<^verbatim>\<open>FileList.handleFileToggle\<close>: toggle the file, then clear the chat.\<close>

definition handleFileToggle ::
  "string \<Rightarrow> file_state \<times> chat_state \<Rightarrow> file_state \<times> chat_state" where
  "handleFileToggle fileId st = (toggleFileSelection fileId (fst st), clearChat (snd st))"

section \<open>The earlier chat store\<close>

text \<open>
  \<^verbatim>\<open>src/frontend/src/store/chatStore.js\<close> is the chat store before the sessions list was
  added: three fields, and \<^verbatim>\<open>initializeSession\<close>, \<^verbatim>\<open>sendMessage\<close> and \<^verbatim>\<open>clearChat\<close> without
  the refresh of the sessions list.
\<close>

record chat_state0 =
  sessionId0 :: "string option"
  messages0 :: "message list"
  isLoading0 :: bool

definition initial_chat_state0 :: chat_state0 where
  "initial_chat_state0 = \<lparr>sessionId0 = None, messages0 = [], isLoading0 = False\<rparr>"

definition initializeSession0_call :: "chat_state0 \<Rightarrow> chat_state0 \<times> request" where
  "initializeSession0_call s = (s, Req_createSession)"

definition initializeSession0_resume ::
  "error + create_session_response \<Rightarrow> chat_state0 \<Rightarrow> chat_state0" where
  "initializeSession0_resume r s =
     (case r of
        Inr response \<Rightarrow> s\<lparr>sessionId0 := Some (created_session_id response)\<rparr>
      | Inl e \<Rightarrow> s)"

definition initializeSession0 ::
  "(request \<Rightarrow> error + create_session_response) \<Rightarrow> chat_state0 \<Rightarrow> chat_state0" where
  "initializeSession0 api s =
     (case initializeSession0_call s of (s1, q) \<Rightarrow> initializeSession0_resume (api q) s1)"

definition sendMessage0_call ::
  "string \<Rightarrow> string list \<Rightarrow> chat_state0 \<Rightarrow> chat_state0 \<times> request" where
  "sendMessage0_call text documentIds s =
     (s\<lparr>messages0 := messages0 s @ [user_message text], isLoading0 := True\<rparr>,
      Req_sendMessage
        \<lparr>question = text, document_ids = documentIds, request_session_id = sessionId0 s\<rparr>)"

definition sendMessage0_resume ::
  "error + chat_response \<Rightarrow> chat_state0 \<Rightarrow> chat_state0 \<times> (error + unit)" where
  "sendMessage0_resume r s =
     (case r of
        Inr response \<Rightarrow>
          (s\<lparr>messages0 := messages0 s @ [assistant_message response],
             isLoading0 := False,
             sessionId0 := Some (response_session_id response)\<rparr>, Inr ())
      | Inl e \<Rightarrow> (s\<lparr>messages0 := butlast (messages0 s), isLoading0 := False\<rparr>, Inl e))"

definition sendMessage0 ::
  "(request \<Rightarrow> error + chat_response) \<Rightarrow> string \<Rightarrow> string list \<Rightarrow> chat_state0
     \<Rightarrow> chat_state0 \<times> (error + unit)" where
  "sendMessage0 api text documentIds s =
     (case sendMessage0_call text documentIds s of (s1, q) \<Rightarrow> sendMessage0_resume (api q) s1)"

definition clearChat0 :: "chat_state0 \<Rightarrow> chat_state0" where
  "clearChat0 s = s\<lparr>messages0 := []\<rparr>"

section \<open>Concrete backends and interleavings\<close>

text \<open>Backends that answer every request the same way, used to run the operations.\<close>

definition answer_abc :: chat_response where
  "answer_abc =
     \<lparr>answer = ''X is Y'', response_sources = [''doc1:p2''], response_session_id = ''abc''\<rparr>"

definition api_chat_ok :: "request \<Rightarrow> error + chat_response" where
  "api_chat_ok q = Inr answer_abc"

definition api_chat_down :: "request \<Rightarrow> error + chat_response" where
  "api_chat_down q = Inl (Error ''Network Error'')"

definition api_create_ok :: "request \<Rightarrow> error + create_session_response" where
  "api_create_ok q = Inr \<lparr>created_session_id = ''new''\<rparr>"

definition api_create_down :: "request \<Rightarrow> error + create_session_response" where
  "api_create_down q = Inl (Error ''Network Error'')"

definition api_delete_ok :: "request \<Rightarrow> error + unit" where
  "api_delete_ok q = Inr ()"

definition api_delete_down :: "request \<Rightarrow> error + unit" where
  "api_delete_down q = Inl (Error ''Network Error'')"

definition api_sessions_down :: "request \<Rightarrow> error + session list" where
  "api_sessions_down q = Inl (Error ''Network Error'')"

definition api_files_down :: "request \<Rightarrow> error + file_info list" where
  "api_files_down q = Inl (Error ''Network Error'')"

text \<open>Two sessions with their histories, and an answer of the backend in session A.\<close>

definition u1 :: message where
  "u1 = \<lparr>role = ''user'', content = ''What is X?'', sources = None\<rparr>"

definition a1 :: message where
  "a1 = \<lparr>role = ''assistant'', content = ''X is Y'', sources = Some [''doc1:p2'']\<rparr>"

definition history_A :: session_history where
  "history_A = \<lparr>history_messages = [u1, a1]\<rparr>"

definition u2 :: message where
  "u2 = \<lparr>role = ''user'', content = ''What is Z?'', sources = None\<rparr>"

definition a2 :: message where
  "a2 = \<lparr>role = ''assistant'', content = ''Z is W'', sources = Some [''doc2:p7'']\<rparr>"

definition history_B :: session_history where
  "history_B = \<lparr>history_messages = [u2, a2]\<rparr>"

definition answer_A :: chat_response where
  "answer_A =
     \<lparr>answer = ''X is also V'', response_sources = [''doc1:p3''], response_session_id = ''A''\<rparr>"

definition session_A :: session where
  "session_A = \<lparr>session_id = ''A'', message_count = 2, created_at = ''1700000000000'',
                 last_message = Some a1\<rparr>"

definition session_B :: session where
  "session_B = \<lparr>session_id = ''B'', message_count = 2, created_at = ''1700000001000'',
                 last_message = None\<rparr>"

text \<open>A store with session A active and both sessions in the cached list.\<close>

definition state_A :: chat_state where
  "state_A =
     \<lparr>sessionId = Some ''A'', messages = [u1, a1], isLoading = False,
      sessions = [session_A, session_B], sessionsLoading = False\<rparr>"

text \<open>
  The user clicks session A, then session B before the history of A has arrived; the
  history of B arrives first. The history of A is still in flight.
\<close>

definition stale_switch_state :: chat_state where
  "stale_switch_state =
     chat_run [Ev_switchSession_call ''A'', Ev_switchSession_call ''B'',
               Ev_switchSession_resume ''B'' (Inr history_B)] initial_chat_state"

text \<open>
  In session A the user sends a message, then clicks session B before the answer has
  arrived; the history of B arrives first. The answer for A is still in flight.
\<close>

definition stale_send_state :: chat_state where
  "stale_send_state =
     chat_run [Ev_sendMessage_call ''And what else?'' [''doc1''],
               Ev_switchSession_call ''B'',
               Ev_switchSession_resume ''B'' (Inr history_B)] state_A"

section \<open>The file store: selection\<close>

lemma set_toggleFileSelection:
  "set (selectedFiles (toggleFileSelection i s)) = flip_member i (set (selectedFiles s))"
  by (auto simp: toggleFileSelection_def flip_member_def Let_def)

lemma set_toggle_all:
  "set (selectedFiles (toggle_all ids s)) = flip_all ids (set (selectedFiles s))"
proof (induction ids arbitrary: s)
  case Nil
  show ?case by (simp add: toggle_all_def flip_all_def)
next
  case (Cons i ids)
  have "set (selectedFiles (toggle_all (i # ids) s))
        = set (selectedFiles (toggle_all ids (toggleFileSelection i s)))"
    by (simp add: toggle_all_def)
  also have "\<dots> = flip_all ids (flip_member i (set (selectedFiles s)))"
    using Cons.IH [of "toggleFileSelection i s"] by (simp add: set_toggleFileSelection)
  also have "\<dots> = flip_all (i # ids) (set (selectedFiles s))"
    by (simp add: flip_all_def)
  finally show ?case .
qed

lemma flip_member_twice: "flip_member i (flip_member i S) = S"
  by (auto simp: flip_member_def)

lemma flip_all_member:
  "x \<in> flip_all ids S \<longleftrightarrow> (x \<in> S) \<noteq> odd (count_list ids x)"
proof (induction ids arbitrary: S)
  case Nil
  show ?case by (simp add: flip_all_def)
next
  case (Cons i ids)
  have "x \<in> flip_all (i # ids) S \<longleftrightarrow> x \<in> flip_all ids (flip_member i S)"
    by (simp add: flip_all_def)
  also have "\<dots> \<longleftrightarrow> (x \<in> flip_member i S) \<noteq> odd (count_list ids x)"
    by (rule Cons.IH)
  also have "\<dots> \<longleftrightarrow> (x \<in> S) \<noteq> odd (count_list (i # ids) x)"
    by (auto simp: flip_member_def)
  finally show ?case .
qed

text \<open>
  C10. After any sequence of \<^verbatim>\<open>toggleFileSelection\<close> calls, from any selection, the selection
  read as a set is the starting set with the membership of each toggled id flipped once
  per toggle: an id is selected at the end exactly when its starting membership differs
  from the parity of the number of its toggles. Toggling the same id twice gives back
  the starting set.
\<close>

theorem toggleFileSelection_symmetric:
  "set (selectedFiles (toggle_all ids s)) = flip_all ids (set (selectedFiles s))
   \<and> (x \<in> set (selectedFiles (toggle_all ids s))
        \<longleftrightarrow> (x \<in> set (selectedFiles s)) \<noteq> odd (count_list ids x))
   \<and> set (selectedFiles (toggleFileSelection i (toggleFileSelection i s)))
       = set (selectedFiles s)"
  by (simp add: set_toggle_all flip_all_member set_toggleFileSelection flip_member_twice)

theorem toggleFileSelection_symmetric_witness:
  "set (selectedFiles (toggle_all [''doc2'', ''doc1'', ''doc2'', ''doc3'']
          (initial_file_state\<lparr>selectedFiles := [''doc1'']\<rparr>))) = {''doc3''}
   \<and> set (selectedFiles (toggleFileSelection ''doc1'' (toggleFileSelection ''doc1''
          (initial_file_state\<lparr>selectedFiles := [''doc1'']\<rparr>)))) = {''doc1''}"
  using toggleFileSelection_symmetric
    [of "[''doc2'', ''doc1'', ''doc2'', ''doc3'']"
        "initial_file_state\<lparr>selectedFiles := [''doc1'']\<rparr>" "''doc3''" "''doc1''"]
  by (auto simp: flip_all_def flip_member_def initial_file_state_def)

section \<open>The chat store: sending a message\<close>

lemma sendMessage_success:
  assumes "api (snd (sendMessage_call text documentIds s)) = Inr response"
  shows "sendMessage api text documentIds s =
           (s\<lparr>messages := messages s @ [user_message text, assistant_message response],
              isLoading := False,
              sessionId := Some (response_session_id response),
              sessionsLoading := True\<rparr>,
            [snd (sendMessage_call text documentIds s), Req_getAllSessions],
            Inr ())"
  using assms
  by (simp add: sendMessage_def sendMessage_call_def sendMessage_resume_def
      fetchSessions_call_def)

lemma sendMessage0_success:
  assumes "api (snd (sendMessage0_call text documentIds s)) = Inr response"
  shows "sendMessage0 api text documentIds s =
           (s\<lparr>messages0 := messages0 s @ [user_message text, assistant_message response],
              isLoading0 := False,
              sessionId0 := Some (response_session_id response)\<rparr>,
            Inr ())"
  using assms
  by (simp add: sendMessage0_def sendMessage0_call_def sendMessage0_resume_def)

lemma sendMessage_failure:
  assumes "api (snd (sendMessage_call text documentIds s)) = Inl e"
  shows "sendMessage api text documentIds s =
           (s\<lparr>isLoading := False\<rparr>, [snd (sendMessage_call text documentIds s)], Inl e)"
  using assms
  by (simp add: sendMessage_def sendMessage_call_def sendMessage_resume_def)

lemma sendMessage0_failure:
  assumes "api (snd (sendMessage0_call text documentIds s)) = Inl e"
  shows "sendMessage0 api text documentIds s = (s\<lparr>isLoading0 := False\<rparr>, Inl e)"
  using assms
  by (simp add: sendMessage0_def sendMessage0_call_def sendMessage0_resume_def)

text \<open>
  C1. For every prior message history and every successful backend response, a call of
  \<^verbatim>\<open>sendMessage(text, documentIds)\<close> that completes with no other operation in between
  ends with the message sequence equal to the prior history followed by the user message
  for \<open>text\<close> and the assistant message built from the answer and the sources, with the
  loading flag false and with the session id of the response as the active session id.
  The request carries the text, the document ids and the session id active at the call.
  This holds for the chat store and for its earlier version.
\<close>

theorem sendMessage_success_history:
  assumes "api (Req_sendMessage \<lparr>question = text, document_ids = documentIds,
                                 request_session_id = sessionId s\<rparr>) = Inr response"
    and "api0 (Req_sendMessage \<lparr>question = text, document_ids = documentIds,
                                  request_session_id = sessionId0 s0\<rparr>) = Inr response0"
  shows "(case sendMessage api text documentIds s of
            (s', qs, res) \<Rightarrow>
              messages s' = messages s @
                 [\<lparr>role = ''user'', content = text, sources = None\<rparr>,
                  \<lparr>role = ''assistant'', content = answer response,
                   sources = Some (response_sources response)\<rparr>]
              \<and> isLoading s' = False
              \<and> sessionId s' = Some (response_session_id response)
              \<and> sessions s' = sessions s
              \<and> res = Inr ())
       \<and> (case sendMessage0 api0 text documentIds s0 of
            (s', res) \<Rightarrow>
              messages0 s' = messages0 s0 @
                 [\<lparr>role = ''user'', content = text, sources = None\<rparr>,
                  \<lparr>role = ''assistant'', content = answer response0,
                   sources = Some (response_sources response0)\<rparr>]
              \<and> isLoading0 s' = False
              \<and> sessionId0 s' = Some (response_session_id response0)
              \<and> res = Inr ())"
proof -
  have a: "api (snd (sendMessage_call text documentIds s)) = Inr response"
    using assms(1) by (simp add: sendMessage_call_def)
  have b: "api0 (snd (sendMessage0_call text documentIds s0)) = Inr response0"
    using assms(2) by (simp add: sendMessage0_call_def)
  show ?thesis
    by (simp add: sendMessage_success [of api "text" documentIds s response, OF a]
        sendMessage0_success [of api0 "text" documentIds s0 response0, OF b]
        user_message_def assistant_message_def)
qed

theorem sendMessage_success_history_witness:
  "messages (fst (sendMessage api_chat_ok ''What is X?'' [''doc1''] initial_chat_state)) =
     [\<lparr>role = ''user'', content = ''What is X?'', sources = None\<rparr>,
      \<lparr>role = ''assistant'', content = ''X is Y'', sources = Some [''doc1:p2'']\<rparr>]
   \<and> isLoading (fst (sendMessage api_chat_ok ''What is X?'' [''doc1''] initial_chat_state))
       = False
   \<and> sessionId (fst (sendMessage api_chat_ok ''What is X?'' [''doc1''] initial_chat_state))
       = Some ''abc''
   \<and> messages0 (fst (sendMessage0 api_chat_ok ''What is X?'' [''doc1''] initial_chat_state0)) =
     [\<lparr>role = ''user'', content = ''What is X?'', sources = None\<rparr>,
      \<lparr>role = ''assistant'', content = ''X is Y'', sources = Some [''doc1:p2'']\<rparr>]
   \<and> sessionId0 (fst (sendMessage0 api_chat_ok ''What is X?'' [''doc1''] initial_chat_state0))
       = Some ''abc''"
  using sendMessage_success_history
    [of api_chat_ok "''What is X?''" "[''doc1'']" initial_chat_state answer_abc
        api_chat_ok initial_chat_state0 answer_abc]
  by (simp add: api_chat_ok_def answer_abc_def initial_chat_state_def
      initial_chat_state0_def split: prod.splits)

text \<open>
  C2. For every prior message history, when the backend call inside \<^verbatim>\<open>sendMessage\<close> fails
  and no other operation ran in between, the message sequence is again exactly the prior
  history, the loading flag is false, the active session id is unchanged (indeed nothing
  but the loading flag differs from the state before the call), and the error of the
  backend is thrown to the caller. This holds for the chat store and for its earlier
  version.
\<close>

theorem sendMessage_failure_rollback:
  assumes "api (Req_sendMessage \<lparr>question = text, document_ids = documentIds,
                                 request_session_id = sessionId s\<rparr>) = Inl e"
    and "api0 (Req_sendMessage \<lparr>question = text, document_ids = documentIds,
                                  request_session_id = sessionId0 s0\<rparr>) = Inl e0"
  shows "(case sendMessage api text documentIds s of
            (s', qs, res) \<Rightarrow>
              messages s' = messages s
              \<and> isLoading s' = False
              \<and> sessionId s' = sessionId s
              \<and> s' = s\<lparr>isLoading := False\<rparr>
              \<and> res = Inl e)
       \<and> (case sendMessage0 api0 text documentIds s0 of
            (s', res) \<Rightarrow>
              messages0 s' = messages0 s0
              \<and> isLoading0 s' = False
              \<and> sessionId0 s' = sessionId0 s0
              \<and> s' = s0\<lparr>isLoading0 := False\<rparr>
              \<and> res = Inl e0)"
proof -
  have a: "api (snd (sendMessage_call text documentIds s)) = Inl e"
    using assms(1) by (simp add: sendMessage_call_def)
  have b: "api0 (snd (sendMessage0_call text documentIds s0)) = Inl e0"
    using assms(2) by (simp add: sendMessage0_call_def)
  show ?thesis
    by (simp add: sendMessage_failure [of api "text" documentIds s e, OF a]
        sendMessage0_failure [of api0 "text" documentIds s0 e0, OF b])
qed

theorem sendMessage_failure_rollback_witness:
  "sendMessage api_chat_down ''And what else?'' [''doc1''] state_A =
     (state_A,
      [Req_sendMessage \<lparr>question = ''And what else?'', document_ids = [''doc1''],
                        request_session_id = Some ''A''\<rparr>],
      Inl (Error ''Network Error''))
   \<and> sendMessage0 api_chat_down ''And what else?'' [''doc1'']
         \<lparr>sessionId0 = Some ''A'', messages0 = [u1, a1], isLoading0 = False\<rparr> =
     (\<lparr>sessionId0 = Some ''A'', messages0 = [u1, a1], isLoading0 = False\<rparr>,
      Inl (Error ''Network Error''))"
  using sendMessage_failure_rollback
    [of api_chat_down "''And what else?''" "[''doc1'']" state_A "Error ''Network Error''"
        api_chat_down "\<lparr>sessionId0 = Some ''A'', messages0 = [u1, a1], isLoading0 = False\<rparr>"
        "Error ''Network Error''"]
  by (simp add: api_chat_down_def state_A_def sendMessage_def sendMessage_call_def
      sendMessage_resume_def split: prod.splits)

section \<open>The chat store: deleting a session\<close>

lemma deleteSession_resume_ok:
  "deleteSession_resume sid (Inr ack) s =
     ((if sessionId s = Some sid
       then s\<lparr>sessions := filter (\<lambda>x. session_id x \<noteq> sid) (sessions s),
               sessionId := None, messages := []\<rparr>
       else s\<lparr>sessions := filter (\<lambda>x. session_id x \<noteq> sid) (sessions s)\<rparr>),
      Inr True)"
  by (simp add: deleteSession_resume_def Let_def)

lemma deleteSession_resume_error: "deleteSession_resume sid (Inl e) s = (s, Inl e)"
  by (simp add: deleteSession_resume_def)

text \<open>
  C7. \<^verbatim>\<open>deleteSession(id)\<close>: when the backend succeeds, the cached sessions list becomes
  the old one without the entries whose id is \<open>id\<close>, and the call returns \<^verbatim>\<open>true\<close>; the
  active session id and the message sequence are cleared exactly when \<open>id\<close> was the
  active session, and are left as they were otherwise; the loading flags are not
  touched. When the backend fails, the error is thrown to the caller and the state is
  unchanged.
\<close>

theorem deleteSession_effect:
  "(api (Req_deleteSession sid) = Inr ack \<longrightarrow>
      (case deleteSession api sid s of
         (s', res) \<Rightarrow>
           res = Inr True
           \<and> sessions s' = filter (\<lambda>x. session_id x \<noteq> sid) (sessions s)
           \<and> sid \<notin> session_id ` set (sessions s')
           \<and> isLoading s' = isLoading s \<and> sessionsLoading s' = sessionsLoading s
           \<and> (sessionId s = Some sid \<longrightarrow> sessionId s' = None \<and> messages s' = [])
           \<and> (sessionId s \<noteq> Some sid \<longrightarrow>
                 sessionId s' = sessionId s \<and> messages s' = messages s)))
   \<and> (api (Req_deleteSession sid) = Inl e \<longrightarrow> deleteSession api sid s = (s, Inl e))"
  by (auto simp: deleteSession_def deleteSession_call_def deleteSession_resume_ok
      deleteSession_resume_error)

theorem deleteSession_effect_witness:
  "deleteSession api_delete_ok ''A'' state_A =
     (\<lparr>sessionId = None, messages = [], isLoading = False,
       sessions = [session_B], sessionsLoading = False\<rparr>, Inr True)
   \<and> deleteSession api_delete_ok ''B'' state_A =
     (\<lparr>sessionId = Some ''A'', messages = [u1, a1], isLoading = False,
       sessions = [session_A], sessionsLoading = False\<rparr>, Inr True)
   \<and> deleteSession api_delete_down ''A'' state_A = (state_A, Inl (Error ''Network Error''))"
proof -
  have ok: "api_delete_ok (Req_deleteSession sid) = Inr ()" for sid
    by (simp add: api_delete_ok_def)
  have down: "api_delete_down (Req_deleteSession ''A'') = Inl (Error ''Network Error'')"
    by (simp add: api_delete_down_def)
  have A: "sessionId state_A = Some ''A''" "messages state_A = [u1, a1]"
    "isLoading state_A = False" "sessionsLoading state_A = False"
    "sessions state_A = [session_A, session_B]"
    by (simp_all add: state_A_def)
  have ids: "session_id session_A = ''A''" "session_id session_B = ''B''"
    by (simp_all add: session_A_def session_B_def)
  from deleteSession_effect [of api_delete_ok "''A''" "()" state_A] ok A ids
  have 1: "deleteSession api_delete_ok ''A'' state_A =
     (\<lparr>sessionId = None, messages = [], isLoading = False,
       sessions = [session_B], sessionsLoading = False\<rparr>, Inr True)"
    by (cases "deleteSession api_delete_ok ''A'' state_A") auto
  from deleteSession_effect [of api_delete_ok "''B''" "()" state_A] ok A ids
  have 2: "deleteSession api_delete_ok ''B'' state_A =
     (\<lparr>sessionId = Some ''A'', messages = [u1, a1], isLoading = False,
       sessions = [session_A], sessionsLoading = False\<rparr>, Inr True)"
    by (cases "deleteSession api_delete_ok ''B'' state_A") auto
  from deleteSession_effect [of api_delete_down "''A''" _ state_A "Error ''Network Error''"] down
  have 3: "deleteSession api_delete_down ''A'' state_A = (state_A, Inl (Error ''Network Error''))"
    by simp
  from 1 2 3 show ?thesis by simp
qed

section \<open>Failed refreshes of the cached lists\<close>

text \<open>
  C8. A failed \<^verbatim>\<open>fetchSessions\<close> leaves the cached sessions list as it was and clears
  \<^verbatim>\<open>sessionsLoading\<close>; a failed \<^verbatim>\<open>loadFiles\<close> leaves the cached files list as it was and
  clears the loading flag of the file store. Nothing else changes either. This holds
  for the whole operation, and for its completion on whatever state the store has then.
\<close>

theorem failed_refresh_keeps_list:
  assumes "api Req_getAllSessions = Inl e" and "fapi Req_getFiles = Inl e'"
  shows "sessions (fetchSessions api s) = sessions s
       \<and> sessionsLoading (fetchSessions api s) = False
       \<and> fetchSessions api s = s\<lparr>sessionsLoading := False\<rparr>
       \<and> fetchSessions_resume (Inl e) s = s\<lparr>sessionsLoading := False\<rparr>
       \<and> files (loadFiles fapi f) = files f
       \<and> filesLoading (loadFiles fapi f) = False
       \<and> loadFiles fapi f = f\<lparr>filesLoading := False\<rparr>
       \<and> loadFiles_resume (Inl e') f = f\<lparr>filesLoading := False\<rparr>"
  using assms
  by (simp add: fetchSessions_def fetchSessions_call_def fetchSessions_resume_def
      loadFiles_def loadFiles_call_def loadFiles_resume_def)

theorem failed_refresh_keeps_list_witness:
  "fetchSessions api_sessions_down state_A = state_A
   \<and> sessions (fetchSessions api_sessions_down state_A) = [session_A, session_B]
   \<and> files (loadFiles api_files_down
        (initial_file_state\<lparr>files :=
           [\<lparr>file_id = ''doc1'', filename = ''a.pdf'', upload_date = ''2024-01-01'',
             file_size = 1024, chunk_count = 3\<rparr>]\<rparr>)) =
       [\<lparr>file_id = ''doc1'', filename = ''a.pdf'', upload_date = ''2024-01-01'',
         file_size = 1024, chunk_count = 3\<rparr>]
   \<and> filesLoading (loadFiles api_files_down
        (initial_file_state\<lparr>files :=
           [\<lparr>file_id = ''doc1'', filename = ''a.pdf'', upload_date = ''2024-01-01'',
             file_size = 1024, chunk_count = 3\<rparr>]\<rparr>)) = False"
  using failed_refresh_keeps_list
    [of api_sessions_down "Error ''Network Error''" api_files_down "Error ''Network Error''"
        state_A
        "initial_file_state\<lparr>files :=
           [\<lparr>file_id = ''doc1'', filename = ''a.pdf'', upload_date = ''2024-01-01'',
             file_size = 1024, chunk_count = 3\<rparr>]\<rparr>"]
  by (simp add: api_sessions_down_def api_files_down_def state_A_def initial_file_state_def)

section \<open>Guards that live in the callers\<close>

text \<open>
  C3, as the claim states it, fails: the store's \<^verbatim>\<open>sendMessage\<close> has no guard. Called with
  the empty text while the loading flag is set, it appends the (empty) user message and
  issues the request.
\<close>

theorem sendMessage_no_guard_counterexample:
  "sendMessage_call [] [''doc1''] (state_A\<lparr>isLoading := True\<rparr>) =
     (state_A\<lparr>messages := [u1, a1, \<lparr>role = ''user'', content = [], sources = None\<rparr>],
              isLoading := True\<rparr>,
      Req_sendMessage
        \<lparr>question = [], document_ids = [''doc1''], request_session_id = Some ''A''\<rparr>)"
  by (simp add: sendMessage_call_def state_A_def user_message_def)

text \<open>
  C3, amended. The guard is in the caller, \<^verbatim>\<open>ChatInput.handleSubmit\<close>: whenever the trimmed
  input is empty, or the loading flag it read is set, or the input is disabled, it
  returns without calling \<^verbatim>\<open>sendMessage\<close>, so no message is appended, the loading flag is
  not set and no request is issued. Whenever it does issue a request, the trimmed input
  is not empty, the loading flag was not set, and the request is the one of
  \<^verbatim>\<open>sendMessage\<close> for the trimmed input and the selection.
\<close>

theorem handleSubmit_guard:
  "(trim input = [] \<or> isLoading s \<or> disabled \<longrightarrow>
      handleSubmit input disabled selected s = (s, [], []))
   \<and> (fst (snd (handleSubmit input disabled selected s)) \<noteq> [] \<longrightarrow>
        trim input \<noteq> [] \<and> \<not> isLoading s \<and> \<not> disabled \<and> selected \<noteq> []
        \<and> handleSubmit input disabled selected s =
            (fst (sendMessage_call (trim input) selected s),
             [snd (sendMessage_call (trim input) selected s)], []))"
  by (simp add: handleSubmit_def split: prod.splits)

theorem handleSubmit_guard_witness:
  "handleSubmit ''  '' False [''doc1''] state_A = (state_A, [], [])
   \<and> handleSubmit ''hi'' False [''doc1''] (state_A\<lparr>isLoading := True\<rparr>)
       = (state_A\<lparr>isLoading := True\<rparr>, [], [])
   \<and> handleSubmit '' hi '' False [''doc1''] state_A =
       (state_A\<lparr>messages := [u1, a1, \<lparr>role = ''user'', content = ''hi'', sources = None\<rparr>],
                isLoading := True\<rparr>,
        [Req_sendMessage \<lparr>question = ''hi'', document_ids = [''doc1''],
                          request_session_id = Some ''A''\<rparr>], [])"
proof -
  have t: "trim ''  '' = []" "trim ''hi'' = ''hi''" "trim '' hi '' = ''hi''"
    by (simp_all add: trim_def is_whitespace_def)
  have A: "isLoading state_A = False" "sessionId state_A = Some ''A''"
    "messages state_A = [u1, a1]"
    by (simp_all add: state_A_def)
  have c: "sendMessage_call ''hi'' [''doc1''] state_A =
       (state_A\<lparr>messages := [u1, a1, \<lparr>role = ''user'', content = ''hi'', sources = None\<rparr>],
                isLoading := True\<rparr>,
        Req_sendMessage \<lparr>question = ''hi'', document_ids = [''doc1''],
                          request_session_id = Some ''A''\<rparr>)"
    by (simp add: sendMessage_call_def A user_message_def)
  have n: "fst (snd (handleSubmit '' hi '' False [''doc1''] state_A)) \<noteq> []"
    by (simp add: handleSubmit_def t A split: prod.splits)
  from handleSubmit_guard [of "''  ''" state_A False "[''doc1'']"] t
  have 1: "handleSubmit ''  '' False [''doc1''] state_A = (state_A, [], [])"
    by simp
  from handleSubmit_guard [of "''hi''" "state_A\<lparr>isLoading := True\<rparr>" False "[''doc1'']"]
  have 2: "handleSubmit ''hi'' False [''doc1''] (state_A\<lparr>isLoading := True\<rparr>)
       = (state_A\<lparr>isLoading := True\<rparr>, [], [])"
    by simp
  from handleSubmit_guard [of "'' hi ''" state_A False "[''doc1'']"] n
  have 3: "handleSubmit '' hi '' False [''doc1''] state_A =
            (fst (sendMessage_call (trim '' hi '') [''doc1''] state_A),
             [snd (sendMessage_call (trim '' hi '') [''doc1''] state_A)], [])"
    by blast
  from 1 2 3 show ?thesis by (simp add: t c)
qed

text \<open>
  C5, as the claim states it, fails: the store's \<^verbatim>\<open>switchSession\<close> does not compare \<open>id\<close>
  with the active session id. With session A active, \<^verbatim>\<open>switchSession("A")\<close> sets the
  loading flag and requests the history of A.
\<close>

theorem switchSession_same_id_counterexample:
  "sessionId state_A = Some ''A''
   \<and> switchSession_call ''A'' state_A =
       (state_A\<lparr>isLoading := True\<rparr>, Req_getSessionHistory ''A'')
   \<and> fst (switchSession_call ''A'' state_A) \<noteq> state_A"
  by (simp add: switchSession_call_def state_A_def)

text \<open>
  C5, amended. The comparison is in the caller, \<^verbatim>\<open>SessionList.handleSwitchSession\<close>: for a
  state in which the active session id equals \<open>id\<close> it returns without calling
  \<^verbatim>\<open>switchSession\<close>, so no request is issued and the whole state is unchanged; for any other
  id it calls \<^verbatim>\<open>switchSession\<close>, which sets the loading flag and requests the history.
\<close>

theorem handleSwitchSession_same_id:
  "(sessionId s = Some sid \<longrightarrow> handleSwitchSession sid s = (s, []))
   \<and> (sessionId s \<noteq> Some sid \<longrightarrow>
        handleSwitchSession sid s = (s\<lparr>isLoading := True\<rparr>, [Req_getSessionHistory sid]))"
  by (auto simp: handleSwitchSession_def switchSession_call_def)

theorem handleSwitchSession_same_id_witness:
  "handleSwitchSession ''A'' state_A = (state_A, [])
   \<and> handleSwitchSession ''B'' state_A =
       (state_A\<lparr>isLoading := True\<rparr>, [Req_getSessionHistory ''B''])"
proof -
  have A: "sessionId state_A = Some ''A''"
    by (simp add: state_A_def)
  from handleSwitchSession_same_id [of state_A "''A''"] A
  have 1: "handleSwitchSession ''A'' state_A = (state_A, [])"
    by simp
  from handleSwitchSession_same_id [of state_A "''B''"] A
  have 2: "handleSwitchSession ''B'' state_A =
       (state_A\<lparr>isLoading := True\<rparr>, [Req_getSessionHistory ''B''])"
    by simp
  from 1 2 show ?thesis by simp
qed

section \<open>The chat store: creating a session\<close>

text \<open>
  C6, as the claim states it, fails: \<^verbatim>\<open>initializeSession\<close> does not look at the active
  session. With session A active it requests a new session and makes it the active one;
  and it never touches the message sequence, so a message appended by a send that is in
  flight while no session is active is still there afterwards.
\<close>

theorem initializeSession_counterexample:
  "sessionId state_A = Some ''A''
   \<and> initializeSession api_create_ok state_A =
       (state_A\<lparr>sessionId := Some ''new'', sessionsLoading := True\<rparr>,
        [Req_createSession, Req_getAllSessions])
   \<and> fst (initializeSession api_create_ok state_A) \<noteq> state_A
   \<and> sessionId (chat_step (Ev_sendMessage_call ''What is X?'' [''doc1'']) initial_chat_state)
       = None
   \<and> messages (fst (initializeSession api_create_ok
        (chat_step (Ev_sendMessage_call ''What is X?'' [''doc1'']) initial_chat_state)))
       = [u1]"
  by (simp add: initializeSession_def initializeSession_call_def initializeSession_resume_def
      fetchSessions_call_def api_create_ok_def state_A_def sendMessage_call_def
      initial_chat_state_def user_message_def u1_def)

text \<open>
  C6, amended. \<^verbatim>\<open>initializeSession\<close> always requests a new session, whether or not one is
  active. On success it sets the newly issued id as the active session id, leaves the
  message sequence and the cached sessions list as they were, and starts a refresh of
  the sessions list (which sets \<^verbatim>\<open>sessionsLoading\<close>); the earlier store only sets the id.
  On failure it leaves all state unchanged and does not throw.
\<close>

theorem initializeSession_effect:
  "(api Req_createSession = Inr response \<longrightarrow>
      initializeSession api s =
        (s\<lparr>sessionId := Some (created_session_id response), sessionsLoading := True\<rparr>,
         [Req_createSession, Req_getAllSessions])
      \<and> initializeSession0 api s0 = s0\<lparr>sessionId0 := Some (created_session_id response)\<rparr>)
   \<and> (api Req_createSession = Inl e \<longrightarrow>
        initializeSession api s = (s, [Req_createSession]) \<and> initializeSession0 api s0 = s0)
   \<and> messages (fst (initializeSession api s)) = messages s
   \<and> sessions (fst (initializeSession api s)) = sessions s
   \<and> messages0 (initializeSession0 api s0) = messages0 s0"
  by (auto simp: initializeSession_def initializeSession_call_def initializeSession_resume_def
      fetchSessions_call_def initializeSession0_def initializeSession0_call_def
      initializeSession0_resume_def split: sum.splits)

theorem initializeSession_effect_witness:
  "initializeSession api_create_ok initial_chat_state =
     (\<lparr>sessionId = Some ''new'', messages = [], isLoading = False, sessions = [],
       sessionsLoading = True\<rparr>, [Req_createSession, Req_getAllSessions])
   \<and> initializeSession0 api_create_ok initial_chat_state0 =
       \<lparr>sessionId0 = Some ''new'', messages0 = [], isLoading0 = False\<rparr>
   \<and> initializeSession api_create_down state_A = (state_A, [Req_createSession])
   \<and> initializeSession0 api_create_down initial_chat_state0 = initial_chat_state0"
proof -
  have ok: "api_create_ok Req_createSession = Inr \<lparr>created_session_id = ''new''\<rparr>"
    by (simp add: api_create_ok_def)
  have down: "api_create_down Req_createSession = Inl (Error ''Network Error'')"
    by (simp add: api_create_down_def)
  from initializeSession_effect
         [of api_create_ok "\<lparr>created_session_id = ''new''\<rparr>" initial_chat_state
             initial_chat_state0] ok
  have 1: "initializeSession api_create_ok initial_chat_state =
     (\<lparr>sessionId = Some ''new'', messages = [], isLoading = False, sessions = [],
       sessionsLoading = True\<rparr>, [Req_createSession, Req_getAllSessions])
   \<and> initializeSession0 api_create_ok initial_chat_state0 =
       \<lparr>sessionId0 = Some ''new'', messages0 = [], isLoading0 = False\<rparr>"
    by (simp add: initial_chat_state_def initial_chat_state0_def)
  from initializeSession_effect
         [of api_create_down _ state_A initial_chat_state0 "Error ''Network Error''"] down
  have 2: "initializeSession api_create_down state_A = (state_A, [Req_createSession])
   \<and> initializeSession0 api_create_down initial_chat_state0 = initial_chat_state0"
    by simp
  from 1 2 show ?thesis by simp
qed

section \<open>The invariant of the active conversation\<close>

lemma chat_step_invariant:
  assumes "session_invariant s" and "\<not> send_without_session ev s"
  shows "session_invariant (chat_step ev s)"
proof (cases ev)
  case (Ev_sendMessage_call m documentIds)
  with assms show ?thesis
    by (simp add: session_invariant_def sendMessage_call_def)
next
  case (Ev_sendMessage_resume r)
  with assms show ?thesis
    by (cases r)
      (simp_all add: session_invariant_def sendMessage_resume_def fetchSessions_call_def)
next
  case (Ev_deleteSession_resume sid r)
  with assms show ?thesis
    by (cases r) (simp_all add: session_invariant_def deleteSession_resume_def Let_def)
next
  case (Ev_switchSession_resume sid r)
  with assms show ?thesis
    by (cases r)
      (simp_all add: session_invariant_def switchSession_resume_def fetchSessions_call_def)
next
  case (Ev_initializeSession_resume r)
  with assms show ?thesis
    by (cases r)
      (simp_all add: session_invariant_def initializeSession_resume_def fetchSessions_call_def)
next
  case (Ev_fetchSessions_resume r)
  with assms show ?thesis
    by (cases r) (simp_all add: session_invariant_def fetchSessions_resume_def)
qed (use assms in \<open>simp_all add: session_invariant_def initializeSession_call_def
      fetchSessions_call_def switchSession_call_def deleteSession_call_def clearChat_def\<close>)

lemma sendMessage_invariant:
  assumes "session_invariant s"
  shows "session_invariant (fst (sendMessage api text documentIds s))"
  using assms
  by (cases "api (snd (sendMessage_call text documentIds s))")
    (simp_all add: session_invariant_def sendMessage_def sendMessage_call_def
      sendMessage_resume_def fetchSessions_call_def)

text \<open>
  C9, as the claim states it, fails: in the initial state no session is active and the
  message sequence is empty, and the synchronous part of \<^verbatim>\<open>sendMessage\<close> appends the user
  message while the session id is still none.
\<close>

theorem session_invariant_counterexample:
  "session_invariant initial_chat_state
   \<and> sessionId (chat_step (Ev_sendMessage_call ''What is X?'' [''doc1'']) initial_chat_state)
       = None
   \<and> messages (chat_step (Ev_sendMessage_call ''What is X?'' [''doc1'']) initial_chat_state)
       = [u1]
   \<and> \<not> session_invariant
         (chat_step (Ev_sendMessage_call ''What is X?'' [''doc1'']) initial_chat_state)"
  by (simp add: session_invariant_def initial_chat_state_def sendMessage_call_def
      user_message_def u1_def)

text \<open>
  C9, amended. The invariant (no active session, no messages) holds in the initial state
  and is preserved by every state update of the store: both parts of
  \<^verbatim>\<open>initializeSession\<close>, \<^verbatim>\<open>fetchSessions\<close>, \<^verbatim>\<open>switchSession\<close> and \<^verbatim>\<open>deleteSession\<close>, the
  completion of \<^verbatim>\<open>sendMessage\<close> with either outcome, \<^verbatim>\<open>clearChat\<close>, and the optimistic
  append of \<^verbatim>\<open>sendMessage\<close> when a session is active. The optimistic append with no
  active session is the one exception; the invariant holds again in the final state of
  such a \<^verbatim>\<open>sendMessage\<close> that completes with no other operation in between.
\<close>

theorem session_invariant_preserved:
  "session_invariant initial_chat_state
   \<and> (session_invariant s \<and> \<not> send_without_session ev s \<longrightarrow>
        session_invariant (chat_step ev s))
   \<and> (session_invariant s \<longrightarrow>
        session_invariant (fst (sendMessage api text documentIds s)))"
  using chat_step_invariant [of s ev] sendMessage_invariant [of s api "text" documentIds]
  by (simp add: session_invariant_def initial_chat_state_def)

theorem session_invariant_preserved_witness:
  "session_invariant (chat_step (Ev_deleteSession_resume ''A'' (Inr ())) state_A)
   \<and> session_invariant
       (fst (sendMessage api_chat_down ''What is X?'' [''doc1''] initial_chat_state))"
proof -
  have A: "session_invariant state_A"
    by (simp add: session_invariant_def state_A_def)
  have n: "\<not> send_without_session (Ev_deleteSession_resume ''A'' (Inr ())) state_A"
    by simp
  from session_invariant_preserved
         [of state_A "Ev_deleteSession_resume ''A'' (Inr ())"] A n
  have 1: "session_invariant (chat_step (Ev_deleteSession_resume ''A'' (Inr ())) state_A)"
    by blast
  from session_invariant_preserved
         [of initial_chat_state _ api_chat_down "''What is X?''" "[''doc1'']"]
  have 2: "session_invariant
       (fst (sendMessage api_chat_down ''What is X?'' [''doc1''] initial_chat_state))"
    by blast
  from 1 2 show ?thesis by simp
qed

section \<open>Responses that arrive after the active session has changed\<close>

lemma convert_message_id: "convert_message (msg :: message) = msg"
  by (cases "sources msg") (simp_all add: convert_message_def)

lemma stale_send_state_eq:
  "stale_send_state =
     \<lparr>sessionId = Some ''B'', messages = [u2, a2], isLoading = False,
      sessions = [session_A, session_B], sessionsLoading = True\<rparr>"
  by (simp add: stale_send_state_def chat_run_def state_A_def sendMessage_call_def
      switchSession_call_def switchSession_resume_def fetchSessions_call_def history_B_def
      convert_message_id)

lemma stale_switch_state_eq:
  "stale_switch_state =
     \<lparr>sessionId = Some ''B'', messages = [u2, a2], isLoading = False,
      sessions = [], sessionsLoading = True\<rparr>"
  by (simp add: stale_switch_state_def chat_run_def initial_chat_state_def
      switchSession_call_def switchSession_resume_def fetchSessions_call_def history_B_def
      convert_message_id)

text \<open>
  C4, as the claim states it, fails: no completion handler compares the session id of
  its request with the active one. With session B active and its history shown, the
  late answer to a message sent in session A is appended to the history of B and makes
  A the active session id again; had that request failed, the last message of B would
  be removed. Likewise the late history of A replaces the one of B.
\<close>

theorem stale_response_counterexample:
  "sessionId stale_send_state = Some ''B''
   \<and> messages stale_send_state = [u2, a2]
   \<and> messages (chat_step (Ev_sendMessage_resume (Inr answer_A)) stale_send_state)
       = [u2, a2, \<lparr>role = ''assistant'', content = ''X is also V'',
                   sources = Some [''doc1:p3'']\<rparr>]
   \<and> sessionId (chat_step (Ev_sendMessage_resume (Inr answer_A)) stale_send_state)
       = Some ''A''
   \<and> sessionId (chat_step (Ev_sendMessage_resume (Inl (Error ''Network Error'')))
        stale_send_state) = Some ''B''
   \<and> messages (chat_step (Ev_sendMessage_resume (Inl (Error ''Network Error'')))
        stale_send_state) = [u2]
   \<and> sessionId stale_switch_state = Some ''B''
   \<and> messages stale_switch_state = [u2, a2]
   \<and> sessionId (chat_step (Ev_switchSession_resume ''A'' (Inr history_A)) stale_switch_state)
       = Some ''A''
   \<and> messages (chat_step (Ev_switchSession_resume ''A'' (Inr history_A)) stale_switch_state)
       = [u1, a1]"
  by (simp add: stale_send_state_eq stale_switch_state_eq sendMessage_resume_def
      switchSession_resume_def fetchSessions_call_def assistant_message_def answer_A_def
      history_A_def convert_message_id)

text \<open>
  C4, amended. The store has no stale-response check: every completion handler applies
  its response to the state the store has when the response arrives. The completion of
  \<^verbatim>\<open>switchSession(id)\<close> writes \<open>id\<close> and the fetched history (the empty sequence on failure)
  in one update, so the history fetched for a session is only ever written together
  with that session's id, and of two completions the later one alone determines the
  active session id, the message sequence and the loading flag (last response wins).
  The completion of \<^verbatim>\<open>sendMessage\<close> appends the assistant message to the current message
  sequence and adopts the session id of the response, whatever session is active then.
\<close>

theorem completion_applies_to_current_state:
  "sessionId (chat_step (Ev_switchSession_resume sid (Inr h)) s) = Some sid
   \<and> messages (chat_step (Ev_switchSession_resume sid (Inr h)) s) = history_messages h
   \<and> isLoading (chat_step (Ev_switchSession_resume sid (Inr h)) s) = False
   \<and> sessionId (chat_step (Ev_switchSession_resume sid (Inl e)) s) = Some sid
   \<and> messages (chat_step (Ev_switchSession_resume sid (Inl e)) s) = []
   \<and> isLoading (chat_step (Ev_switchSession_resume sid (Inl e)) s) = False
   \<and> sessionId (chat_step (Ev_switchSession_resume sid r)
        (chat_step (Ev_switchSession_resume sid' r') s))
       = sessionId (chat_step (Ev_switchSession_resume sid r) s)
   \<and> messages (chat_step (Ev_switchSession_resume sid r)
        (chat_step (Ev_switchSession_resume sid' r') s))
       = messages (chat_step (Ev_switchSession_resume sid r) s)
   \<and> isLoading (chat_step (Ev_switchSession_resume sid r)
        (chat_step (Ev_switchSession_resume sid' r') s))
       = isLoading (chat_step (Ev_switchSession_resume sid r) s)
   \<and> messages (chat_step (Ev_sendMessage_resume (Inr response)) s)
       = messages s @ [assistant_message response]
   \<and> sessionId (chat_step (Ev_sendMessage_resume (Inr response)) s)
       = Some (response_session_id response)"
  by (cases r; cases r')
    (simp_all add: switchSession_resume_def sendMessage_resume_def fetchSessions_call_def
      convert_message_id cong: map_cong)

theorem completion_applies_to_current_state_witness:
  "sessionId (chat_step (Ev_switchSession_resume ''A'' (Inr history_A)) stale_switch_state)
     = Some ''A''
   \<and> messages (chat_step (Ev_switchSession_resume ''A'' (Inr history_A)) stale_switch_state)
     = [u1, a1]
   \<and> messages (chat_step (Ev_switchSession_resume ''A'' (Inl (Error ''Network Error'')))
        stale_switch_state) = []"
  using completion_applies_to_current_state
    [of "''A''" history_A stale_switch_state "Error ''Network Error''"]
  by (simp add: history_A_def)

end
